theory Spec2Isabelle
  imports Complex_Main "HOL-Library.Sublist"
begin

section \<open>County validation (src/utils/irishCounties.ts)\<close>

text \<open>
  A JavaScript string is modelled as a \<open>string\<close> whose characters are the UTF-16 code units
  below 256 (ASCII and Latin-1). \<open>null\<close> and \<open>undefined\<close> are \<open>None\<close>.
\<close>

definition irishCounties :: "string list" where
  "irishCounties =
    [''Co. Antrim'', ''Co. Armagh'', ''Co. Carlow'', ''Co. Cavan'', ''Co. Clare'', ''Co. Cork'',
     ''Co. Derry'', ''Co. Donegal'', ''Co. Down'', ''Co. Dublin'', ''Co. Fermanagh'',
     ''Co. Galway'', ''Co. Kerry'', ''Co. Kildare'', ''Co. Kilkenny'', ''Co. Laois'',
     ''Co. Leitrim'', ''Co. Limerick'', ''Co. Longford'', ''Co. Louth'', ''Co. Mayo'',
     ''Co. Meath'', ''Co. Monaghan'', ''Co. Offaly'', ''Co. Roscommon'', ''Co. Sligo'',
     ''Co. Tipperary'', ''Co. Tyrone'', ''Co. Waterford'', ''Co. Westmeath'', ''Co. Wexford'',
     ''Co. Wicklow'']"

text \<open>
  \<open>String.prototype.toLowerCase\<close> on one code unit below 256: the letters A to Z and the
  Latin-1 capitals U+00C0 to U+00DE (the multiplication sign U+00D7 apart) move up by 32,
  every other code unit is unchanged.
\<close>

definition toLowerCase_char :: "char \<Rightarrow> char" where
  "toLowerCase_char c =
     (let n = (of_char c :: nat)
      in if (65 \<le> n \<and> n \<le> 90) \<or> (192 \<le> n \<and> n \<le> 222 \<and> n \<noteq> 215)
         then char_of (n + 32) else c)"

definition toLowerCase :: "string \<Rightarrow> string" where
  "toLowerCase s = map toLowerCase_char s"

text \<open>\<open>String.prototype.startsWith\<close>: an exact, case-sensitive comparison of the first code units.\<close>

definition startsWith :: "string \<Rightarrow> string \<Rightarrow> bool" where
  "startsWith s p = (take (length p) s = p)"

text \<open>\<open>Array.prototype.some\<close>.\<close>

fun some :: "('a \<Rightarrow> bool) \<Rightarrow> 'a list \<Rightarrow> bool" where
  "some p [] = False"
| "some p (x # xs) = (if p x then True else some p xs)"

definition isValidCounty :: "string option \<Rightarrow> bool" where
  "isValidCounty county =
     (case county of
        None \<Rightarrow> False
      | Some c \<Rightarrow>
          if c = [] then False
          else
            let countyWithPrefix = (if startsWith c ''Co. '' then c else ''Co. '' @ c)
            in some (\<lambda>validCounty. toLowerCase validCounty = toLowerCase countyWithPrefix)
                    irishCounties)"

subsection \<open>The rule of the specification, in its own words\<close>

text \<open>The input with the reference prefix prepended when it is absent.\<close>

definition prefix_normalised :: "string \<Rightarrow> string" where
  "prefix_normalised s = (if prefix ''Co. '' s then s else ''Co. '' @ s)"

text \<open>
  Two strings match case-insensitively when they have the same length and agree position by
  position up to letter case: a whole-string comparison, nothing partial or approximate.
\<close>

definition same_letter :: "char \<Rightarrow> char \<Rightarrow> bool" where
  "same_letter a b = (toLowerCase_char a = toLowerCase_char b)"

definition matches_ignoring_case :: "string \<Rightarrow> string \<Rightarrow> bool" where
  "matches_ignoring_case a b = list_all2 same_letter a b"

section \<open>Data model: the documents of the store\<close>

text \<open>
  The collections \<open>reports\<close>, \<open>messages\<close> and \<open>userUpvotes\<close> of the document store.
  A collection is the list of its documents, each with its storage-assigned document id;
  a field that a document may lack is an \<open>option\<close>. Numbers of the source are reals
  (coordinates, accuracy) or integers (counters, points, milliseconds since the epoch).
\<close>

datatype report_status = Pending | Approved | Completed

record LocationCoords =
  latitude :: real
  longitude :: real
  accuracy :: "real option"

record LocationObject =
  coords :: LocationCoords

record report =
  r_id :: string
  r_imageUrl :: string
  r_category :: string
  r_description :: string
  r_addressLine1 :: string
  r_addressLine2 :: string
  r_county :: "string option"
  r_eircode :: string
  r_location :: "LocationObject option"
  r_timestamp :: int
  r_userId :: "string option"
  r_status :: report_status
  r_assigned :: "string option"
  r_upvotes :: "int option"

datatype message_type = approval | decline | general

record message =
  m_userId :: "string option"
  m_title :: string
  m_content :: string
  m_type :: message_type
  m_reportId :: string
  m_createdAt :: int
  m_read :: bool
  m_expiresAt :: int

record firestore =
  reports :: "(string \<times> report) list"
  messages :: "(string \<times> message) list"
  userUpvotes :: "string \<rightharpoonup> (string \<rightharpoonup> int)"

section \<open>Leaderboard (fetchLeaderboardData of LeaderboardScreen and of HomeScreen)\<close>

record CountyStats =
  county :: string
  points :: int
  completedReports :: int

















subsection \<open>The aggregate of the specification\<close>









text \<open>A report document with the given county, status and owner, for concrete checks.\<close>

definition sampleReport :: "string option \<Rightarrow> report_status \<Rightarrow> string \<Rightarrow> report" where
  "sampleReport c s u =
     \<lparr>r_id = ''m3k2-9x'', r_imageUrl = ''https://blob/reports/m3k2-9x.jpg'',
      r_category = ''Pothole'', r_description = ''Deep pothole'', r_addressLine1 = ''1 Main St'',
      r_addressLine2 = '''', r_county = c, r_eircode = ''D01 F5P2'', r_location = None,
      r_timestamp = 1700000000000, r_userId = Some u, r_status = s, r_assigned = None,
      r_upvotes = None\<rparr>"



section \<open>The message list of the account screen (fetchMessages) and the hourly sweep\<close>

text \<open>
  The query of \<open>fetchMessages\<close>, built once with the clock reading \<open>now\<close> of the moment the
  listener is attached: the messages of the user whose \<open>expiresAt\<close> is greater than \<open>now\<close>,
  ordered by \<open>expiresAt\<close>, descending. Each result carries its document id.
\<close>

definition messagesQuery :: "string \<Rightarrow> int \<Rightarrow> firestore \<Rightarrow> (string \<times> message) list" where
  "messagesQuery uid now db =
     sort_key (\<lambda>(docId, m). - m_expiresAt m)
       (filter (\<lambda>(docId, m). m_userId m = Some uid \<and> m_expiresAt m > now) (messages db))"

text \<open>The local updates of the list after a message was marked read, or dismissed.\<close>

definition markReadLocal :: "string \<Rightarrow> (string \<times> message) list \<Rightarrow> (string \<times> message) list" where
  "markReadLocal messageId prevMessages =
     map (\<lambda>(docId, msg). if docId = messageId then (docId, msg\<lparr>m_read := True\<rparr>) else (docId, msg))
       prevMessages"

definition dismissLocal :: "string \<Rightarrow> (string \<times> message) list \<Rightarrow> (string \<times> message) list" where
  "dismissLocal messageId prevMessages = filter (\<lambda>(docId, msg). docId \<noteq> messageId) prevMessages"

text \<open>
  The lists the screen can hold while the listener attached by user \<open>uid\<close> at time \<open>now\<close> is
  active: empty at first; replaced by the query's result on whatever the store holds each
  time a snapshot arrives; updated locally by \<open>handleMessageRead\<close> and \<open>handleDismiss\<close>.
\<close>

inductive displayed :: "string \<Rightarrow> int \<Rightarrow> (string \<times> message) list \<Rightarrow> bool" for uid now where
  initial: "displayed uid now []"
| snapshot: "displayed uid now ms \<Longrightarrow> displayed uid now (messagesQuery uid now db)"
| handleMessageRead: "displayed uid now ms \<Longrightarrow> displayed uid now (markReadLocal messageId ms)"
| handleDismiss: "displayed uid now ms \<Longrightarrow> displayed uid now (dismissLocal messageId ms)"

text \<open>The scheduled function: it deletes the messages whose \<open>expiresAt\<close> is less than its clock reading.\<close>

definition deleteExpiredMessages :: "int \<Rightarrow> firestore \<Rightarrow> firestore" where
  "deleteExpiredMessages now db =
     db\<lparr>messages := filter (\<lambda>(docId, m). \<not> m_expiresAt m < now) (messages db)\<rparr>"

definition sampleMessage :: "string \<Rightarrow> int \<Rightarrow> message" where
  "sampleMessage u e =
     \<lparr>m_userId = Some u, m_title = ''Report Approved'',
      m_content = ''Your report about \"Pothole\" has been approved.'', m_type = approval,
      m_reportId = ''m3k2-9x'', m_createdAt = e - 7200000, m_read = False, m_expiresAt = e\<rparr>"

definition sampleInboxDb :: firestore where
  "sampleInboxDb =
     \<lparr>reports = [],
      messages = [(''a'', sampleMessage ''u1'' 5000), (''b'', sampleMessage ''u1'' 9000),
                  (''c'', sampleMessage ''u2'' 9500), (''d'', sampleMessage ''u1'' 12000)],
      userUpvotes = Map.empty\<rparr>"

section \<open>Image verification client (verifyImageWithChatGPT)\<close>

text \<open>
  A thrown value, as far as the handler reads it: its \<open>status\<close> property, when it has one,
  and its \<open>message\<close>. An \<open>Error\<close> made by \<open>new Error(msg)\<close> has no \<open>status\<close>.
\<close>

record js_error =
  e_status :: "nat option"
  e_message :: string

definition newError :: "string \<Rightarrow> js_error" where
  "newError msg = \<lparr>e_status = None, e_message = msg\<rparr>"

text \<open>The JSON body of a response of the verification endpoint, and the response itself.\<close>

record verify_body =
  b_error :: "string option"
  b_isVerified :: "bool option"

record http_response =
  status :: nat
  json :: "js_error + verify_body"

definition ok :: "http_response \<Rightarrow> bool" where
  "ok r = (200 \<le> status r \<and> status r \<le> 299)"

text \<open>
  What the outside world does during one run of the \<open>try\<close> block: reading the image
  file fails, the request fails, or the endpoint answers.
\<close>

datatype attempt =
    ReadThrows js_error
  | FetchThrows js_error
  | Response http_response

datatype verify_event = ReadFile | Delay nat | Post

text \<open>\<open>a || b\<close> on strings: the empty string is falsy.\<close>

definition orElse :: "string \<Rightarrow> string \<Rightarrow> string" where
  "orElse a b = (if a = [] then b else a)"

text \<open>The \<open>try\<close> block: its value or the value it throws, and what it did.\<close>

definition tryBlock :: "attempt \<Rightarrow> (js_error + bool option) \<times> verify_event list" where
  "tryBlock a =
     (case a of
        ReadThrows e \<Rightarrow> (Inl e, [ReadFile])
      | FetchThrows e \<Rightarrow> (Inl e, [ReadFile, Delay 1000, Post])
      | Response response \<Rightarrow>
          if \<not> ok response then
            (case json response of
               Inl e \<Rightarrow> (Inl e, [ReadFile, Delay 1000, Post])
             | Inr errorData \<Rightarrow>
                 (Inl (newError (orElse (case b_error errorData of None \<Rightarrow> [] | Some m \<Rightarrow> m)
                                    ''Failed to verify image'')),
                  [ReadFile, Delay 1000, Post]))
          else
            (case json response of
               Inl e \<Rightarrow> (Inl e, [ReadFile, Delay 1000, Post])
             | Inr data \<Rightarrow> (Inr (b_isVerified data), [ReadFile, Delay 1000, Post])))"

text \<open>
  The function, run against the list of what the world does at each of its attempts. The
  \<open>catch\<close> block calls the function again when the caught value has status 429, and throws
  a new error otherwise. \<open>None\<close>: the list ended before the function returned.
\<close>

fun verifyImageWithChatGPT ::
  "attempt list \<Rightarrow> ((js_error + bool option) \<times> verify_event list) option" where
  "verifyImageWithChatGPT [] = None"
| "verifyImageWithChatGPT (a # world) =
     (case tryBlock a of
        (Inr isVerified, evs) \<Rightarrow> Some (Inr isVerified, evs)
      | (Inl error, evs) \<Rightarrow>
          if e_status error = Some 429 then
            (case verifyImageWithChatGPT world of
               None \<Rightarrow> None
             | Some (r, evs') \<Rightarrow> Some (r, evs @ [Delay 5000] @ evs'))
          else Some (Inl (newError (orElse (e_message error) ''Failed to verify image with AI'')), evs))"

text \<open>The number of calls of the function in a run: the attempts it made.\<close>

definition calls :: "verify_event list \<Rightarrow> nat" where
  "calls evs = length (filter (\<lambda>e. e = ReadFile) evs)"

definition rateLimitedResponse :: attempt where
  "rateLimitedResponse =
     Response \<lparr>status = 429,
               json = Inr \<lparr>b_error = Some ''Rate limit exceeded'', b_isVerified = None\<rparr>\<rparr>"

definition verifiedResponse :: "bool \<Rightarrow> attempt" where
  "verifiedResponse v =
     Response \<lparr>status = 200, json = Inr \<lparr>b_error = None, b_isVerified = Some v\<rparr>\<rparr>"

definition thrown429 :: attempt where
  "thrown429 = FetchThrows \<lparr>e_status = Some 429, e_message = ''Too Many Requests''\<rparr>"

section \<open>Dates: \<open>new Date()\<close>, \<open>getHours\<close> and \<open>setHours\<close>\<close>

text \<open>
  A \<open>Date\<close> is its time value, the milliseconds since the epoch. \<open>getHours\<close> and
  \<open>setHours\<close> work on local time, as the language defines them; the time zone of the device
  gives the offset of local time from UTC at a UTC instant and at a local time.
\<close>

definition msPerDay :: int where "msPerDay = 86400000"
definition msPerHour :: int where "msPerHour = 3600000"
definition msPerMinute :: int where "msPerMinute = 60000"
definition msPerSecond :: int where "msPerSecond = 1000"

definition Day :: "int \<Rightarrow> int" where "Day t = t div msPerDay"
definition HourFromTime :: "int \<Rightarrow> int" where "HourFromTime t = (t div msPerHour) mod 24"
definition MinFromTime :: "int \<Rightarrow> int" where "MinFromTime t = (t div msPerMinute) mod 60"
definition SecFromTime :: "int \<Rightarrow> int" where "SecFromTime t = (t div msPerSecond) mod 60"
definition msFromTime :: "int \<Rightarrow> int" where "msFromTime t = t mod msPerSecond"

definition MakeTime :: "int \<Rightarrow> int \<Rightarrow> int \<Rightarrow> int \<Rightarrow> int" where
  "MakeTime hour minute sec ms = hour * msPerHour + minute * msPerMinute + sec * msPerSecond + ms"

definition MakeDate :: "int \<Rightarrow> int \<Rightarrow> int" where
  "MakeDate day time = day * msPerDay + time"

record timezone =
  offsetAtUTC :: "int \<Rightarrow> int"
  offsetAtLocal :: "int \<Rightarrow> int"

definition LocalTime :: "timezone \<Rightarrow> int \<Rightarrow> int" where
  "LocalTime z t = t + offsetAtUTC z t"

definition UTC :: "timezone \<Rightarrow> int \<Rightarrow> int" where
  "UTC z t = t - offsetAtLocal z t"

definition getHours :: "timezone \<Rightarrow> int \<Rightarrow> int" where
  "getHours z t = HourFromTime (LocalTime z t)"

definition setHours :: "timezone \<Rightarrow> int \<Rightarrow> int \<Rightarrow> int" where
  "setHours z t hour =
     (let tl = LocalTime z t
      in UTC z (MakeDate (Day tl) (MakeTime hour (MinFromTime tl) (SecFromTime tl) (msFromTime tl))))"

text \<open>\<open>const expiresAt = new Date(); expiresAt.setHours(expiresAt.getHours() + 2);\<close>\<close>

definition twoHoursLater :: "timezone \<Rightarrow> int \<Rightarrow> int" where
  "twoHoursLater z now = setHours z now (getHours z now + 2)"

text \<open>A zone with one offset throughout, and Irish time around the end of summer time 2025.\<close>

definition fixedZone :: "int \<Rightarrow> timezone" where
  "fixedZone c = \<lparr>offsetAtUTC = (\<lambda>t. c), offsetAtLocal = (\<lambda>t. c)\<rparr>"

definition dublinAutumn2025 :: timezone where
  "dublinAutumn2025 =
     \<lparr>offsetAtUTC = (\<lambda>t. if t < 1761440400000 then 3600000 else 0),
      offsetAtLocal = (\<lambda>t. if t < 1761444000000 then 3600000 else 0)\<rparr>"

section \<open>Moderation (AdminDashboard): the store's operations and the handlers\<close>

text \<open>
  The requests a handler sends to the store. The environment of a handler gives the clock of
  the device and its time zone, the clock of the server (the value of \<open>serverTimestamp()\<close>),
  the document id the store assigns to the next added document, and the requests that fail
  for a reason outside the program (no network, no permission).
\<close>

datatype request = GetDocs | GetDoc | UpdateDoc | SetDoc | AddDoc | DeleteDoc

record env =
  clientNow :: int
  zone :: timezone
  serverNow :: int
  autoId :: string
  unreachable :: "request \<Rightarrow> bool"

text \<open>What a handler wrote to the store, in the order of the writes.\<close>

datatype store_write = StatusWritten string report_status | MessageAdded string message

text \<open>\<open>query(collection(db, "reports"), where("id", "==", reportId))\<close>\<close>

definition whereId :: "string \<Rightarrow> firestore \<Rightarrow> (string \<times> report) list" where
  "whereId reportId db = filter (\<lambda>(docId, d). r_id d = reportId) (reports db)"

text \<open>\<open>getDoc(doc(db, "reports", docId))\<close>: the data, or nothing when the document does not exist.\<close>

definition getReport :: "string \<Rightarrow> firestore \<Rightarrow> report option" where
  "getReport docId db = map_of (reports db) docId"

text \<open>\<open>updateDoc(reportRef, {status: s})\<close>: it fails when the document does not exist.\<close>

definition updateStatus :: "string \<Rightarrow> report_status \<Rightarrow> firestore \<Rightarrow> firestore option" where
  "updateStatus docId s db =
     (if map_of (reports db) docId = None then None
      else Some (db\<lparr>reports :=
                    map (\<lambda>(d, r). if d = docId then (d, r\<lparr>r_status := s\<rparr>) else (d, r)) (reports db)\<rparr>))"

text \<open>
  \<open>addDoc(collection(db, "messages"), msg)\<close> under the id the store assigns. The handlers
  pass \<open>userId: reportData.userId\<close>; when the report has no \<open>userId\<close> that field is
  \<open>undefined\<close>, which \<open>addDoc\<close> refuses with an error before anything is written (the
  store is initialised without \<open>ignoreUndefinedProperties\<close>).
\<close>

definition addMessage :: "string \<Rightarrow> message \<Rightarrow> firestore \<Rightarrow> firestore" where
  "addMessage newId msg db = db\<lparr>messages := messages db @ [(newId, msg)]\<rparr>"

record dashboard =
  user :: "string option"
  isAdmin :: bool
  pendingReports :: "(string \<times> report) list"
  assignedReports :: "(string \<times> report) list"
  processingId :: "string option"
  currentCardIndex :: nat
  alerts :: "(string \<times> string) list"

text \<open>The \<open>catch\<close> and \<open>finally\<close> blocks of a handler: an alert, and the guard is released.\<close>

definition failed ::
  "dashboard \<Rightarrow> firestore \<Rightarrow> store_write list \<Rightarrow> string \<Rightarrow> dashboard \<times> firestore \<times> store_write list" where
  "failed dash db written text =
     (dash\<lparr>processingId := None, alerts := alerts dash @ [(''Error'', text)]\<rparr>, db, written)"

definition handleApprove ::
  "env \<Rightarrow> dashboard \<Rightarrow> firestore \<Rightarrow> string \<Rightarrow> string \<Rightarrow> dashboard \<times> firestore \<times> store_write list" where
  "handleApprove e dash db reportId docId =
     (if processingId dash = Some docId then (dash, db, [])
      else if unreachable e GetDocs then failed dash db [] ''Failed to approve report''
      else
        case whereId reportId db of
          [] \<Rightarrow> failed dash db [] ''Failed to approve report''
        | (firstId, reportData) # others \<Rightarrow>
            if unreachable e UpdateDoc then failed dash db [] ''Failed to approve report''
            else
              case updateStatus docId Approved db of
                None \<Rightarrow> failed dash db [] ''Failed to approve report''
              | Some db1 \<Rightarrow>
                  let expiresAt = twoHoursLater (zone e) (clientNow e);
                      msg = \<lparr>m_userId = r_userId reportData,
                             m_title = ''Report Approved'',
                             m_content = ''Your report about \"'' @ r_category reportData
                                         @ ''\" has been approved.'',
                             m_type = approval,
                             m_reportId = reportId,
                             m_createdAt = serverNow e,
                             m_read = False,
                             m_expiresAt = expiresAt\<rparr>
                  in if r_userId reportData = None \<or> unreachable e AddDoc
                     then failed dash db1 [StatusWritten docId Approved] ''Failed to approve report''
                     else
                       (dash\<lparr>pendingReports :=
                                filter (\<lambda>(d, r). d \<noteq> docId) (pendingReports dash),
                              currentCardIndex := 0,
                              processingId := None,
                              alerts := alerts dash @ [(''Success'', ''Report approved successfully'')]\<rparr>,
                        addMessage (autoId e) msg db1,
                        [StatusWritten docId Approved, MessageAdded (autoId e) msg]))"

definition handleComplete ::
  "env \<Rightarrow> dashboard \<Rightarrow> firestore \<Rightarrow> string \<Rightarrow> string \<Rightarrow> dashboard \<times> firestore \<times> store_write list" where
  "handleComplete e dash db reportId docId =
     (if processingId dash = Some docId then (dash, db, [])
      else if unreachable e GetDoc then failed dash db [] ''Failed to complete report''
      else
        case getReport docId db of
          None \<Rightarrow> failed dash db [] ''Failed to complete report''
        | Some reportData \<Rightarrow>
            if unreachable e UpdateDoc then failed dash db [] ''Failed to complete report''
            else
              case updateStatus docId Completed db of
                None \<Rightarrow> failed dash db [] ''Failed to complete report''
              | Some db1 \<Rightarrow>
                  let expiresAt = twoHoursLater (zone e) (clientNow e);
                      msg = \<lparr>m_userId = r_userId reportData,
                             m_title = ''Report Completed'',
                             m_content = ''Your report about \"'' @ r_category reportData
                                         @ ''\" has been marked as completed.'',
                             m_type = general,
                             m_reportId = reportId,
                             m_createdAt = serverNow e,
                             m_read = False,
                             m_expiresAt = expiresAt\<rparr>
                  in if r_userId reportData = None \<or> unreachable e AddDoc
                     then failed dash db1 [StatusWritten docId Completed] ''Failed to complete report''
                     else
                       (dash\<lparr>assignedReports :=
                                filter (\<lambda>(d, r). d \<noteq> docId) (assignedReports dash),
                              processingId := None,
                              alerts := alerts dash @ [(''Success'', ''Report marked as completed'')]\<rparr>,
                        addMessage (autoId e) msg db1,
                        [StatusWritten docId Completed, MessageAdded (autoId e) msg]))"

text \<open>
  \<open>fetchAssignedReports\<close>: the reports whose \<open>assigned\<close> field is the uid of the signed-in
  user and whose status is \<open>approved\<close>, each with its document id.
\<close>

definition fetchAssignedReports :: "env \<Rightarrow> dashboard \<Rightarrow> firestore \<Rightarrow> dashboard" where
  "fetchAssignedReports e dash db =
     (case user dash of
        None \<Rightarrow> dash
      | Some uid \<Rightarrow>
          if unreachable e GetDocs
          then dash\<lparr>alerts := alerts dash @ [(''Error'', ''Failed to fetch assigned reports'')]\<rparr>
          else dash\<lparr>assignedReports :=
                       filter (\<lambda>(docId, d). r_assigned d = Some uid \<and> r_status d = Approved)
                         (reports db)\<rparr>)"

text \<open>
  The Complete button of the card at position \<open>i\<close> of the assigned tab. The dashboard renders
  the cards of \<open>assignedReports\<close> only, and nothing but "Access Denied" when the user is no
  admin.
\<close>

definition pressComplete ::
  "env \<Rightarrow> dashboard \<Rightarrow> firestore \<Rightarrow> nat \<Rightarrow> dashboard \<times> firestore \<times> store_write list" where
  "pressComplete e dash db i =
     (if isAdmin dash \<and> i < length (assignedReports dash)
      then (case assignedReports dash ! i of (docId, r) \<Rightarrow> handleComplete e dash db (r_id r) docId)
      else (dash, db, []))"

subsection \<open>A concrete store, two admins and an environment\<close>

definition online :: "int \<Rightarrow> int \<Rightarrow> env" where
  "online client server =
     \<lparr>clientNow = client, zone = fixedZone 3600000, serverNow = server,
      autoId = ''msg-1'', unreachable = (\<lambda>r. False)\<rparr>"

definition adminDashboard :: "string \<Rightarrow> dashboard" where
  "adminDashboard uid =
     \<lparr>user = Some uid, isAdmin = True, pendingReports = [], assignedReports = [],
      processingId = None, currentCardIndex = 0, alerts = []\<rparr>"

definition assignedTo :: "string \<Rightarrow> report" where
  "assignedTo admin =
     (sampleReport (Some ''Co. Dublin'') Approved ''u1'')\<lparr>r_assigned := Some admin\<rparr>"

definition sampleModerationDb :: firestore where
  "sampleModerationDb =
     \<lparr>reports = [(''doc-1'', assignedTo ''admin-a''),
                 (''doc-2'', (sampleReport (Some ''Co. Cork'') Pending ''u2'')\<lparr>r_id := ''m3k9-1b''\<rparr>),
                 (''doc-3'', (assignedTo ''admin-b'')\<lparr>r_id := ''m3kb-77''\<rparr>)],
      messages = [], userUpvotes = Map.empty\<rparr>"

section \<open>Upvotes (FeedScreen): handleUpvote\<close>






subsection \<open>Reading the stored state\<close>





subsection \<open>A concrete feed\<close>



section \<open>Report submission (ReportScreen): location, duplicates, uploadReport\<close>

record reportScreen =
  s_user :: "string option"
  s_imageUri :: string
  s_imageUrl :: string
  s_uniqueId :: string
  s_selectedCategory :: string
  s_description :: string
  s_reportDocId :: "string option"
  s_status :: "report_status option"
  s_hasExistingReport :: bool
  s_addressLine1 :: string
  s_addressLine2 :: string
  s_county :: string
  s_eircode :: string
  s_location :: "LocationObject option"
  s_isLoading :: bool
  s_locationAccuracy :: "real option"
  s_toasts :: "(string \<times> string \<times> string) list"

definition showToast :: "string \<Rightarrow> string \<Rightarrow> string \<Rightarrow> reportScreen \<Rightarrow> reportScreen" where
  "showToast type text1 text2 s = s\<lparr>s_toasts := s_toasts s @ [(type, text1, text2)]\<rparr>"

subsection \<open>generateId\<close>

text \<open>\<open>Number.prototype.toString(36)\<close> on a natural number: digits 0 to 9, then a to z.\<close>

definition digit36 :: "nat \<Rightarrow> char" where
  "digit36 d = (if d < 10 then char_of (48 + d) else char_of (87 + d))"

function toString36 :: "nat \<Rightarrow> string" where
  "toString36 n = (if n < 36 then [digit36 n] else toString36 (n div 36) @ [digit36 (n mod 36)])"
  by pat_completeness auto
termination
  by (relation "measure id") auto

declare toString36.simps [simp del]

text \<open>
  \<open>generateId\<close>, from the two readings it takes: \<open>Date.now()\<close> and
  \<open>Math.floor(Math.random() * 1000000)\<close>.
\<close>

definition generateId :: "nat \<Rightarrow> nat \<Rightarrow> string" where
  "generateId now random = toString36 now @ ''-'' @ toString36 random"

subsection \<open>isLocationValid\<close>

definition isLocationValid :: "reportScreen \<Rightarrow> bool" where
  "isLocationValid s =
     (case s_location s of
        None \<Rightarrow> False
      | Some loc \<Rightarrow>
          if (case s_locationAccuracy s of None \<Rightarrow> False | Some a \<Rightarrow> a \<noteq> 0 \<and> a > 100)
          then False
          else (s_addressLine1 s \<noteq> [] \<or> s_county s \<noteq> [] \<or> s_eircode s \<noteq> []))"

subsection \<open>calculateDistance and checkDuplicateReport\<close>

text \<open>
  The numbers of the source are IEEE doubles, and \<open>Math.sin\<close>, \<open>Math.cos\<close>, \<open>Math.sqrt\<close> and
  \<open>Math.atan2\<close> are what the engine provides. The arithmetic of the device is a parameter of
  the model: a type of numbers (it may hold \<open>NaN\<close> and the infinities) with the operations
  the source uses, the value of a numeric literal or of a stored finite number, and the
  comparison \<open><=\<close>.
\<close>

record 'n numbers =
  n_number :: "real \<Rightarrow> 'n"
  n_times :: "'n \<Rightarrow> 'n \<Rightarrow> 'n"
  n_divide :: "'n \<Rightarrow> 'n \<Rightarrow> 'n"
  n_minus :: "'n \<Rightarrow> 'n \<Rightarrow> 'n"
  n_plus :: "'n \<Rightarrow> 'n \<Rightarrow> 'n"
  Math_sin :: "'n \<Rightarrow> 'n"
  Math_cos :: "'n \<Rightarrow> 'n"
  Math_sqrt :: "'n \<Rightarrow> 'n"
  Math_atan2 :: "'n \<Rightarrow> 'n \<Rightarrow> 'n"
  Math_PI :: 'n
  n_le :: "'n \<Rightarrow> 'n \<Rightarrow> bool"

text \<open>
  \<open>calculateDistance\<close>, operation by operation in the order the source evaluates them
  (\<open>x * Math.PI/180\<close> is \<open>(x * Math.PI) / 180\<close>; products associate to the left).
\<close>

definition calculateDistance :: "'n numbers \<Rightarrow> 'n \<Rightarrow> 'n \<Rightarrow> 'n \<Rightarrow> 'n \<Rightarrow> 'n" where
  "calculateDistance N lat1 lon1 lat2 lon2 =
     (let R = n_number N 6371000;
          \<phi>1 = n_divide N (n_times N lat1 (Math_PI N)) (n_number N 180);
          \<phi>2 = n_divide N (n_times N lat2 (Math_PI N)) (n_number N 180);
          \<Delta>\<phi> = n_divide N (n_times N (n_minus N lat2 lat1) (Math_PI N)) (n_number N 180);
          \<Delta>\<Lambda> = n_divide N (n_times N (n_minus N lon2 lon1) (Math_PI N)) (n_number N 180);
          a = n_plus N
                (n_times N (Math_sin N (n_divide N \<Delta>\<phi> (n_number N 2)))
                           (Math_sin N (n_divide N \<Delta>\<phi> (n_number N 2))))
                (n_times N
                   (n_times N (n_times N (Math_cos N \<phi>1) (Math_cos N \<phi>2))
                              (Math_sin N (n_divide N \<Delta>\<Lambda> (n_number N 2))))
                   (Math_sin N (n_divide N \<Delta>\<Lambda> (n_number N 2))));
          c = n_times N (n_number N 2)
                (Math_atan2 N (Math_sqrt N a) (Math_sqrt N (n_minus N (n_number N 1) a)))
      in n_times N R c)"

definition RADIUS_METERS :: real where
  "RADIUS_METERS = 50"

text \<open>\<open>distance <= RADIUS_METERS\<close> for the stored point \<open>loc\<close> of a report.\<close>

definition withinRadius :: "'n numbers \<Rightarrow> LocationObject \<Rightarrow> LocationObject \<Rightarrow> bool" where
  "withinRadius N currentLocation loc =
     n_le N
       (calculateDistance N
          (n_number N (latitude (coords currentLocation)))
          (n_number N (longitude (coords currentLocation)))
          (n_number N (latitude (coords loc)))
          (n_number N (longitude (coords loc))))
       (n_number N RADIUS_METERS)"

text \<open>The loop over the documents of the snapshot, with its early return.\<close>

fun scanSnapshot :: "'n numbers \<Rightarrow> LocationObject \<Rightarrow> (string \<times> report) list \<Rightarrow> bool" where
  "scanSnapshot N currentLocation [] = False"
| "scanSnapshot N currentLocation ((docId, reportData) # docs) =
     (case r_location reportData of
        None \<Rightarrow> scanSnapshot N currentLocation docs
      | Some loc \<Rightarrow>
          if withinRadius N currentLocation loc then True
          else scanSnapshot N currentLocation docs)"

text \<open>
  Arithmetic without rounding: the real numbers, with \<open>Math.atan2(y, x)\<close> the angle of the
  point \<open>(x, y)\<close>, between \<open>-\<pi>\<close> and \<open>\<pi>\<close>.
\<close>

definition atan2 :: "real \<Rightarrow> real \<Rightarrow> real" where
  "atan2 y x =
     (if x > 0 then arctan (y / x)
      else if x < 0 \<and> y \<ge> 0 then arctan (y / x) + pi
      else if x < 0 \<and> y < 0 then arctan (y / x) - pi
      else if y > 0 then pi / 2
      else if y < 0 then - pi / 2
      else 0)"

definition exactReals :: "real numbers" where
  "exactReals =
     \<lparr>n_number = (\<lambda>x. x), n_times = (*), n_divide = (/), n_minus = (-), n_plus = (+),
      Math_sin = sin, Math_cos = cos, Math_sqrt = sqrt, Math_atan2 = atan2, Math_PI = pi,
      n_le = (\<le>)\<rparr>"

text \<open>
  The environment of a submission: the arithmetic of the device, what the verification
  attempts meet, the readings of \<open>generateId\<close>, the server's time stamp, the id and the
  download URL the stores assign, and the requests that fail, each with the message of its
  error.
\<close>

datatype submit_request =
  QueryPending | FetchImage | UploadBytes | GetDownloadURL | AddReport

record 'n submitEnv =
  arithmetic :: "'n numbers"
  verifyWorld :: "attempt list"
  dateNow :: nat
  random :: nat
  serverTime :: int
  newDocId :: string
  downloadURL :: string
  failing :: "submit_request \<Rightarrow> string option"

text \<open>\<open>checkDuplicateReport\<close>: \<open>Inl\<close> when the query is rejected.\<close>

definition checkDuplicateReport ::
  "'n submitEnv \<Rightarrow> reportScreen \<Rightarrow> firestore \<Rightarrow> LocationObject \<Rightarrow> string + bool" where
  "checkDuplicateReport w s db currentLocation =
     (case s_user s of
        None \<Rightarrow> Inr False
      | Some uid \<Rightarrow>
          (case failing w QueryPending of
             Some msg \<Rightarrow> Inl msg
           | None \<Rightarrow>
               Inr (scanSnapshot (arithmetic w) currentLocation
                      (filter (\<lambda>(docId, d). r_userId d = Some uid \<and> r_status d = Pending)
                         (reports db)))))"

subsection \<open>uploadReport\<close>

text \<open>
  The result of a run: the screen, the reports of the store, the paths written to the blob
  store, and whether the promise was rejected with an error nobody catches. \<open>None\<close>: the run
  does not end (the verification never returns).
\<close>

datatype completion = Returned | Rejected string

definition truthy :: "bool option \<Rightarrow> bool" where
  "truthy v = (v = Some True)"

text \<open>The \<open>catch\<close> and \<open>finally\<close> blocks of \<open>uploadReport\<close>.\<close>

definition uploadFailed :: "string \<Rightarrow> reportScreen \<Rightarrow> reportScreen" where
  "uploadFailed msg s = (showToast ''error'' ''Upload Failed'' msg s)\<lparr>s_isLoading := False\<rparr>"

definition uploadReport ::
  "'n submitEnv \<Rightarrow> reportScreen \<Rightarrow> firestore \<Rightarrow> string list
     \<Rightarrow> (reportScreen \<times> firestore \<times> string list \<times> completion) option" where
  "uploadReport w s db blobs =
     (if s_imageUri s = [] \<or> s_selectedCategory s = [] \<or> s_description s = []
         \<or> s_addressLine1 s = [] \<or> s_county s = [] \<or> s_eircode s = []
      then Some (showToast ''error'' ''Missing Fields''
                   ''Please fill in all fields before submitting.'' s, db, blobs, Returned)
      else if \<not> isValidCounty (Some (s_county s))
      then Some (showToast ''error'' ''Invalid County''
                   ''Please select a valid Irish county.'' s, db, blobs, Returned)
      else if \<not> isLocationValid s
      then Some (showToast ''error'' ''Location Validation Failed''
                   ''The location data appears to be inaccurate or incomplete. Please try refreshing your location or enter the address manually.''
                   s, db, blobs, Returned)
      else
        case (case s_location s of
                None \<Rightarrow> Inr False
              | Some loc \<Rightarrow> checkDuplicateReport w s db loc) of
          Inl msg \<Rightarrow> Some (s, db, blobs, Rejected msg)
        | Inr True \<Rightarrow>
            Some (showToast ''error'' ''Duplicate Report''
                    ''You have already submitted a report for this location. Please wait for the previous report to be approved before submitting another one in this area.''
                    s, db, blobs, Returned)
        | Inr False \<Rightarrow>
            (case verifyImageWithChatGPT (verifyWorld w) of
               None \<Rightarrow> None
             | Some (Inl err, evs) \<Rightarrow> Some (uploadFailed (e_message err) s, db, blobs, Returned)
             | Some (Inr isVerified, evs) \<Rightarrow>
                 if \<not> truthy isVerified
                 then Some ((showToast ''error'' ''Validation Failed''
                               ''Validation check failed. Please try again.'' s)
                              \<lparr>s_imageUri := [], s_selectedCategory := [], s_description := [],
                               s_uniqueId := generateId (dateNow w) (random w),
                               s_isLoading := False\<rparr>,
                            db, blobs, Returned)
                 else
                   let path = ''reports/'' @ s_uniqueId s @ ''.jpg'' in
                   case failing w FetchImage of
                     Some msg \<Rightarrow> Some (uploadFailed msg s, db, blobs, Returned)
                   | None \<Rightarrow>
                   case failing w UploadBytes of
                     Some msg \<Rightarrow> Some (uploadFailed msg s, db, blobs, Returned)
                   | None \<Rightarrow>
                   case failing w GetDownloadURL of
                     Some msg \<Rightarrow> Some (uploadFailed msg s, db, blobs @ [path], Returned)
                   | None \<Rightarrow>
                   case failing w AddReport of
                     Some msg \<Rightarrow> Some (uploadFailed msg s, db, blobs @ [path], Returned)
                   | None \<Rightarrow>
                   case s_user s of
                     None \<Rightarrow>
                       Some (uploadFailed
                               ''Function addDoc() called with invalid data. Unsupported field value: undefined (found in field userId)''
                               s, db, blobs @ [path], Returned)
                   | Some uid \<Rightarrow>
                       Some ((showToast ''success'' ''Report Submitted''
                                ''Your report has been submitted successfully!''
                                (s\<lparr>s_imageUrl := downloadURL w,
                                   s_reportDocId := Some (newDocId w),
                                   s_status := Some Pending,
                                   s_hasExistingReport := True\<rparr>))
                               \<lparr>s_isLoading := False\<rparr>,
                             db\<lparr>reports := reports db @
                                  [(newDocId w,
                                    \<lparr>r_id = s_uniqueId s,
                                     r_imageUrl = downloadURL w,
                                     r_category = s_selectedCategory s,
                                     r_description = s_description s,
                                     r_addressLine1 = s_addressLine1 s,
                                     r_addressLine2 = s_addressLine2 s,
                                     r_county = Some (s_county s),
                                     r_eircode = s_eircode s,
                                     r_location = s_location s,
                                     r_timestamp = serverTime w,
                                     r_userId = Some uid,
                                     r_status = Pending,
                                     r_assigned = None,
                                     r_upvotes = None\<rparr>)]\<rparr>,
                             blobs @ [path], Returned)))"

subsection \<open>The conditions of the specification\<close>

text \<open>A required field is missing.\<close>

definition missingField :: "reportScreen \<Rightarrow> bool" where
  "missingField s =
     (s_imageUri s = [] \<or> s_selectedCategory s = [] \<or> s_description s = []
      \<or> s_addressLine1 s = [] \<or> s_county s = [] \<or> s_eircode s = [])"

text \<open>
  The location is invalid: no fix, a reported accuracy greater than 100 meters, or no
  address component populated.
\<close>

definition invalidLocation :: "reportScreen \<Rightarrow> bool" where
  "invalidLocation s =
     (s_location s = None
      \<or> (\<exists>a. s_locationAccuracy s = Some a \<and> a > 100)
      \<or> (s_addressLine1 s = [] \<and> s_county s = [] \<and> s_eircode s = []))"

text \<open>The submission passes every check that comes before the image verification.\<close>

definition passesChecks :: "'n submitEnv \<Rightarrow> reportScreen \<Rightarrow> firestore \<Rightarrow> bool" where
  "passesChecks w s db =
     (\<not> missingField s \<and> isValidCounty (Some (s_county s)) \<and> \<not> invalidLocation s
      \<and> (\<exists>loc. s_location s = Some loc \<and> checkDuplicateReport w s db loc = Inr False))"

text \<open>The form after a verdict of \<open>false\<close>.\<close>

definition formAfterFalseVerdict :: "'n submitEnv \<Rightarrow> reportScreen \<Rightarrow> reportScreen" where
  "formAfterFalseVerdict w s =
     (showToast ''error'' ''Validation Failed'' ''Validation check failed. Please try again.'' s)
       \<lparr>s_imageUri := [], s_selectedCategory := [], s_description := [],
        s_uniqueId := generateId (dateNow w) (random w),
        s_isLoading := False\<rparr>"

subsection \<open>A concrete submission\<close>

definition dublinFix :: LocationObject where
  "dublinFix = \<lparr>coords = \<lparr>latitude = 53.3498, longitude = - 6.2603, accuracy = Some 12\<rparr>\<rparr>"

definition filledForm :: "real option \<Rightarrow> reportScreen" where
  "filledForm acc =
     \<lparr>s_user = Some ''u1'', s_imageUri = ''file:///photo.jpg'', s_imageUrl = [],
      s_uniqueId = generateId 1000 7, s_selectedCategory = ''Pothole'',
      s_description = ''Deep pothole'', s_reportDocId = None, s_status = None,
      s_hasExistingReport = False, s_addressLine1 = ''1 Main St'', s_addressLine2 = [],
      s_county = ''Dublin'', s_eircode = ''D01 F5P2'', s_location = Some dublinFix,
      s_isLoading = False, s_locationAccuracy = acc, s_toasts = []\<rparr>"

definition sampleWorld :: "bool \<Rightarrow> real submitEnv" where
  "sampleWorld verdict =
     \<lparr>arithmetic = exactReals, verifyWorld = [verifiedResponse verdict], dateNow = 5000, random = 42,
      serverTime = 1700000000000, newDocId = ''doc-9'',
      downloadURL = ''https://blob/reports/rs-7.jpg'', failing = (\<lambda>q. None)\<rparr>"

definition emptyDb :: firestore where
  "emptyDb = \<lparr>reports = [], messages = [], userUpvotes = Map.empty\<rparr>"

subsection \<open>The great-circle distance of the specification\<close>










section \<open>Properties of county validation\<close>

lemma some_iff_ex: "some p xs \<longleftrightarrow> (\<exists>x \<in> set xs. p x)"
  by (induction xs) auto

lemma startsWith_iff_prefix: "startsWith s p \<longleftrightarrow> prefix p s"
  by (auto simp: startsWith_def prefix_def) (metis append_take_drop_id)

lemma toLowerCase_eq_iff: "toLowerCase a = toLowerCase b \<longleftrightarrow> matches_ignoring_case a b"
  unfolding toLowerCase_def matches_ignoring_case_def same_letter_def
  by (induction a arbitrary: b) (auto simp: list_all2_Cons1 map_eq_Cons_conv)

lemma irishCounties_length: "length irishCounties = 32"
  by (simp add: irishCounties_def)

lemma irishCounties_distinct: "distinct irishCounties"
  by (simp add: irishCounties_def)

text \<open>
  C7. \<open>isValidCounty\<close> is true exactly for a non-empty, non-null input that, once the
  \<open>Co. \<close> prefix is prepended when the input does not start with it, matches one of the
  canonical county names case-insensitively as a whole string; the reference list has 32
  distinct entries; the empty string and \<open>null\<close> are invalid.
\<close>

theorem isValidCounty_iff:
  "(isValidCounty inp \<longleftrightarrow>
      (\<exists>s. inp = Some s \<and> s \<noteq> [] \<and>
           (\<exists>c \<in> set irishCounties. matches_ignoring_case c (prefix_normalised s))))
   \<and> length irishCounties = 32 \<and> distinct irishCounties
   \<and> \<not> isValidCounty (Some []) \<and> \<not> isValidCounty None"
proof -
  have "isValidCounty inp \<longleftrightarrow>
      (\<exists>s. inp = Some s \<and> s \<noteq> [] \<and>
           (\<exists>c \<in> set irishCounties. matches_ignoring_case c (prefix_normalised s)))"
    by (cases inp)
       (simp_all add: isValidCounty_def some_iff_ex startsWith_iff_prefix
          toLowerCase_eq_iff prefix_normalised_def Let_def)
  moreover have "\<not> isValidCounty (Some [])" "\<not> isValidCounty None"
    by (simp_all add: isValidCounty_def)
  ultimately show ?thesis
    using irishCounties_length irishCounties_distinct by blast
qed

theorem isValidCounty_iff_witness:
  "isValidCounty (Some ''dublin'') \<and>
   (\<exists>c \<in> set irishCounties. matches_ignoring_case c (prefix_normalised ''dublin''))"
proof -
  have "isValidCounty (Some ''dublin'')"
    by code_simp
  then show ?thesis
    using isValidCounty_iff [of "Some ''dublin''"] by simp
qed

section \<open>Properties of the leaderboard\<close>








































section \<open>Properties of the message list\<close>

lemma messagesQuery_set:
  "set (messagesQuery uid now db) =
     {(docId, m). (docId, m) \<in> set (messages db) \<and> m_userId m = Some uid \<and> m_expiresAt m > now}"
  by (auto simp: messagesQuery_def)

lemma markReadLocal_expiry:
  assumes "(docId, m) \<in> set (markReadLocal messageId ms)"
  obtains m' where "(docId, m') \<in> set ms" "m_expiresAt m' = m_expiresAt m" "m_userId m' = m_userId m"
  using assms by (auto simp: markReadLocal_def split: if_splits)

lemma displayed_fresh:
  "displayed uid now ms \<Longrightarrow> (docId, m) \<in> set ms \<Longrightarrow> m_expiresAt m > now \<and> m_userId m = Some uid"
proof (induction arbitrary: docId m rule: displayed.induct)
  case initial
  then show ?case by simp
next
  case (snapshot ms db)
  then show ?case by (simp add: messagesQuery_set)
next
  case (handleMessageRead ms messageId)
  from handleMessageRead.prems obtain m'
    where "(docId, m') \<in> set ms" "m_expiresAt m' = m_expiresAt m" "m_userId m' = m_userId m"
    by (rule markReadLocal_expiry)
  then show ?case using handleMessageRead.IH by metis
next
  case (handleDismiss ms messageId)
  from handleDismiss.prems have "(docId, m) \<in> set ms"
    by (simp add: dismissLocal_def)
  then show ?case by (rule handleDismiss.IH)
qed

lemma sweep_invisible: "messagesQuery uid now (deleteExpiredMessages now db) = messagesQuery uid now db"
proof -
  have "filter (\<lambda>(docId, m). m_userId m = Some uid \<and> m_expiresAt m > now)
          (filter (\<lambda>(docId, m). \<not> m_expiresAt m < now) (messages db))
        = filter (\<lambda>(docId, m). m_userId m = Some uid \<and> m_expiresAt m > now) (messages db)"
    by (induction "messages db" arbitrary: db) (auto intro: filter_cong)
  then show ?thesis
    by (simp add: messagesQuery_def deleteExpiredMessages_def)
qed

text \<open>
  C10. Every message the account screen holds while its listener is active belongs to the
  user and has an expiry strictly later than the time of the query; so a message of the
  store that had expired by then is not in the list, whether or not the sweep has deleted
  it: the sweep running at the query time leaves the query's result unchanged.
\<close>

theorem displayed_messages_unexpired:
  "(displayed uid now ms \<longrightarrow>
      (\<forall>(docId, m) \<in> set ms. m_expiresAt m > now \<and> m_userId m = Some uid))
   \<and> (\<forall>(docId, m) \<in> set (messages db).
         m_expiresAt m \<le> now \<longrightarrow> (docId, m) \<notin> set (messagesQuery uid now db))
   \<and> messagesQuery uid now (deleteExpiredMessages now db) = messagesQuery uid now db"
proof (intro conjI)
  show "displayed uid now ms \<longrightarrow>
      (\<forall>(docId, m) \<in> set ms. m_expiresAt m > now \<and> m_userId m = Some uid)"
    using displayed_fresh by blast
  show "\<forall>(docId, m) \<in> set (messages db).
         m_expiresAt m \<le> now \<longrightarrow> (docId, m) \<notin> set (messagesQuery uid now db)"
    by (auto simp: messagesQuery_set)
  show "messagesQuery uid now (deleteExpiredMessages now db) = messagesQuery uid now db"
    by (rule sweep_invisible)
qed

theorem displayed_messages_unexpired_witness:
  "displayed ''u1'' 9000 (markReadLocal ''d'' (messagesQuery ''u1'' 9000 sampleInboxDb))
   \<and> markReadLocal ''d'' (messagesQuery ''u1'' 9000 sampleInboxDb)
       = [(''d'', (sampleMessage ''u1'' 12000)\<lparr>m_read := True\<rparr>)]
   \<and> (''b'', sampleMessage ''u1'' 9000) \<in> set (messages sampleInboxDb)
   \<and> (''b'', sampleMessage ''u1'' 9000) \<notin> set (messagesQuery ''u1'' 9000 sampleInboxDb)
   \<and> 9000 < m_expiresAt ((sampleMessage ''u1'' 12000)\<lparr>m_read := True\<rparr>)"
proof -
  let ?ms = "markReadLocal ''d'' (messagesQuery ''u1'' 9000 sampleInboxDb)"
  have d: "displayed ''u1'' 9000 ?ms"
    by (rule displayed.handleMessageRead, rule displayed.snapshot, rule displayed.initial)
  have e: "?ms = [(''d'', (sampleMessage ''u1'' 12000)\<lparr>m_read := True\<rparr>)]"
    by (simp add: markReadLocal_def messagesQuery_def sampleInboxDb_def sampleMessage_def)
  have b: "(''b'', sampleMessage ''u1'' 9000) \<in> set (messages sampleInboxDb)"
    by (simp add: sampleInboxDb_def)
  have le: "m_expiresAt (sampleMessage ''u1'' 9000) \<le> 9000"
    by (simp add: sampleMessage_def)
  note t = displayed_messages_unexpired [of "''u1''" 9000 ?ms sampleInboxDb]
  have "(''b'', sampleMessage ''u1'' 9000) \<notin> set (messagesQuery ''u1'' 9000 sampleInboxDb)"
    using t b le by blast
  moreover have "9000 < m_expiresAt ((sampleMessage ''u1'' 12000)\<lparr>m_read := True\<rparr>)"
    using t d e by auto
  ultimately show ?thesis using d e b by blast
qed

section \<open>Properties of the image verification client\<close>

text \<open>A failure whose thrown value does not carry status 429 is rethrown at once: one attempt, no retry.\<close>

lemma verifyImage_other_failure_propagates:
  assumes "tryBlock a = (Inl e, evs)" and "e_status e \<noteq> Some 429"
  shows "verifyImageWithChatGPT (a # world)
         = Some (Inl (newError (orElse (e_message e) ''Failed to verify image with AI'')), evs)"
  using assms by simp

text \<open>
  The retry has no bound: after any number of failures with status 429 in a row, the
  function calls itself again, and returns what the first other attempt gives.
\<close>

lemma verifyImage_retries_unbounded:
  "verifyImageWithChatGPT (replicate n thrown429 @ [verifiedResponse v])
   = Some (Inr (Some v),
           concat (replicate n [ReadFile, Delay 1000, Post, Delay 5000]) @ [ReadFile, Delay 1000, Post])"
proof (induction n)
  case 0
  show ?case by (simp add: verifiedResponse_def tryBlock_def ok_def)
next
  case (Suc n)
  have "tryBlock thrown429
        = (Inl \<lparr>e_status = Some 429, e_message = ''Too Many Requests''\<rparr>, [ReadFile, Delay 1000, Post])"
    by (simp add: thrown429_def tryBlock_def)
  then show ?case using Suc.IH by simp
qed

text \<open>
  C3, at two runs. An answer of the endpoint with HTTP status 429 is turned into a new error
  without a status, so the handler does not retry: one attempt, no 5 second delay, the error
  propagates although the next attempt would have succeeded. And when the thrown value does
  carry status 429 twice in a row, the handler retries a second time instead of giving up:
  three attempts, two 5 second delays, and the third attempt's verdict is returned.
\<close>

theorem verifyImage_rate_limit_runs:
  "verifyImageWithChatGPT [rateLimitedResponse, verifiedResponse True]
     = Some (Inl (newError ''Rate limit exceeded''), [ReadFile, Delay 1000, Post])
   \<and> calls [ReadFile, Delay 1000, Post] = 1
   \<and> verifyImageWithChatGPT [thrown429, thrown429, verifiedResponse True]
     = Some (Inr (Some True),
             [ReadFile, Delay 1000, Post, Delay 5000,
              ReadFile, Delay 1000, Post, Delay 5000,
              ReadFile, Delay 1000, Post])
   \<and> calls [ReadFile, Delay 1000, Post, Delay 5000,
             ReadFile, Delay 1000, Post, Delay 5000,
             ReadFile, Delay 1000, Post] = 3"
  by (simp add: rateLimitedResponse_def verifiedResponse_def thrown429_def tryBlock_def ok_def
        newError_def orElse_def calls_def)

section \<open>Properties of the date arithmetic\<close>

lemma split_unit:
  fixes t :: int
  assumes "0 \<le> b"
  shows "(t div a) mod b * a = t mod (a * b) - t mod a"
  using zmod_zmult2_eq [of b t a] assms by (simp add: algebra_simps)

lemma time_components:
  "MakeDate (Day t) (MakeTime (HourFromTime t + h) (MinFromTime t) (SecFromTime t) (msFromTime t))
   = t + h * msPerHour"
proof -
  have d: "(t div 86400000) * 86400000 = t - t mod 86400000"
    by (simp add: algebra_simps minus_mod_eq_mult_div)
  have hh: "(t div 3600000) mod 24 * 3600000 = t mod 86400000 - t mod 3600000"
    using split_unit [of 24 t 3600000] by simp
  have mm: "(t div 60000) mod 60 * 60000 = t mod 3600000 - t mod 60000"
    using split_unit [of 60 t 60000] by simp
  have ss: "(t div 1000) mod 60 * 1000 = t mod 60000 - t mod 1000"
    using split_unit [of 60 t 1000] by simp
  have "(t div 86400000) * 86400000
        + (((t div 3600000) mod 24 + h) * 3600000 + (t div 60000) mod 60 * 60000
           + (t div 1000) mod 60 * 1000 + t mod 1000)
        = t + h * 3600000"
    by (simp only: d hh mm ss distrib_right)
  then show ?thesis
    by (simp only: MakeDate_def MakeTime_def Day_def HourFromTime_def MinFromTime_def
          SecFromTime_def msFromTime_def msPerDay_def msPerHour_def msPerMinute_def
          msPerSecond_def)
qed

lemma twoHoursLater_eq:
  "twoHoursLater z now = UTC z (LocalTime z now + 7200000)"
  unfolding twoHoursLater_def setHours_def getHours_def Let_def
  by (simp only: time_components) (simp add: msPerHour_def)

lemma twoHoursLater_same_offset:
  assumes "offsetAtLocal z (now + offsetAtUTC z now + 7200000) = offsetAtUTC z now"
  shows "twoHoursLater z now = now + 7200000"
  using assms by (simp add: twoHoursLater_eq UTC_def LocalTime_def)

lemma twoHoursLater_fixedZone: "twoHoursLater (fixedZone c) now = now + 7200000"
  by (rule twoHoursLater_same_offset) (simp add: fixedZone_def)

text \<open>
  On the night summer time ends, at 00:30 Irish summer time (23:30 UTC on 25 October 2025),
  the hour set is 02:30 local time, which is 02:30 UTC: three hours later.
\<close>

lemma twoHoursLater_autumn: "twoHoursLater dublinAutumn2025 1761435000000 = 1761435000000 + 10800000"
  by (simp add: twoHoursLater_eq UTC_def LocalTime_def dublinAutumn2025_def)

section \<open>Properties of the moderation handlers\<close>

lemma map_of_status_update:
  "map_of (map (\<lambda>(d, r). if d = docId then (d, r\<lparr>r_status := s\<rparr>) else (d, r)) rs) k
   = (if k = docId then map_option (\<lambda>r. r\<lparr>r_status := s\<rparr>) (map_of rs k) else map_of rs k)"
  by (induction rs) auto

lemma getReport_updateStatus:
  "updateStatus docId s db = Some db1 \<Longrightarrow>
   getReport k db1 = (if k = docId then map_option (\<lambda>r. r\<lparr>r_status := s\<rparr>) (getReport k db)
                      else getReport k db)"
  by (auto simp: updateStatus_def getReport_def map_of_status_update split: if_splits)

lemma updateStatus_messages: "updateStatus docId s db = Some db1 \<Longrightarrow> messages db1 = messages db"
  by (auto simp: updateStatus_def split: if_splits)

lemma updateStatus_exists:
  "getReport docId db = Some R \<Longrightarrow> \<exists>db1. updateStatus docId s db = Some db1"
  by (simp add: updateStatus_def getReport_def)

lemma getReport_addMessage: "getReport k (addMessage i m db) = getReport k db"
  by (simp add: getReport_def addMessage_def)

lemma getReport_member:
  "distinct (map fst (reports db)) \<Longrightarrow> (docId, R) \<in> set (reports db) \<Longrightarrow> getReport docId db = Some R"
  by (simp add: getReport_def)

text \<open>The first document of the query by generated id is the report itself when no other document has its id.\<close>

lemma whereId_first:
  assumes "(docId, R) \<in> set (reports db)"
      and "distinct (map fst (reports db))"
      and "\<forall>(d, r) \<in> set (reports db). r_id r = r_id R \<longrightarrow> d = docId"
  shows "\<exists>others. whereId (r_id R) db = (docId, R) # others"
proof -
  have ne: "(docId, R) \<in> set (whereId (r_id R) db)"
    using assms(1) by (simp add: whereId_def)
  have all: "\<And>p. p \<in> set (whereId (r_id R) db) \<Longrightarrow> p = (docId, R)"
  proof -
    fix p assume p: "p \<in> set (whereId (r_id R) db)"
    obtain d r where dr: "p = (d, r)" by (cases p)
    have m: "(d, r) \<in> set (reports db)" and i: "r_id r = r_id R"
      using p dr by (simp_all add: whereId_def)
    have "d = docId" using assms(3) m i by blast
    moreover have "map_of (reports db) docId = Some R" "map_of (reports db) d = Some r"
      using assms(1,2) m by simp_all
    ultimately show "p = (docId, R)" using dr by simp
  qed
  show ?thesis
  proof (cases "whereId (r_id R) db")
    case Nil
    then show ?thesis using ne by simp
  next
    case (Cons p ps)
    then have "p = (docId, R)" using all by simp
    then show ?thesis using Cons by simp
  qed
qed

lemma handleApprove_run:
  assumes "whereId reportId db = (firstId, reportData) # others"
      and "updateStatus docId Approved db = Some db1"
      and "processingId dash \<noteq> Some docId"
      and "\<not> unreachable e GetDocs" and "\<not> unreachable e UpdateDoc"
  shows "handleApprove e dash db reportId docId =
     (let msg = \<lparr>m_userId = r_userId reportData, m_title = ''Report Approved'',
                  m_content = ''Your report about \"'' @ r_category reportData
                              @ ''\" has been approved.'',
                  m_type = approval, m_reportId = reportId, m_createdAt = serverNow e,
                  m_read = False, m_expiresAt = twoHoursLater (zone e) (clientNow e)\<rparr>
      in if r_userId reportData = None \<or> unreachable e AddDoc
         then failed dash db1 [StatusWritten docId Approved] ''Failed to approve report''
         else (dash\<lparr>pendingReports := filter (\<lambda>(d, r). d \<noteq> docId) (pendingReports dash),
                    currentCardIndex := 0, processingId := None,
                    alerts := alerts dash @ [(''Success'', ''Report approved successfully'')]\<rparr>,
               addMessage (autoId e) msg db1,
               [StatusWritten docId Approved, MessageAdded (autoId e) msg]))"
  using assms by (simp add: handleApprove_def Let_def)

text \<open>
  C2, as the code has it. Approving a stored report \<open>R\<close> (a pending one in particular: the
  handler does not read the status) that has an owning user id, with the store reachable and
  \<open>R\<close>'s generated id shared by no other document: first the status of \<open>R\<close> is written as \<open>approved\<close>, then exactly one
  message is added, of type \<open>approval\<close>, for the owner of \<open>R\<close>. Its \<open>expiresAt\<close> is the reading
  of the device's clock plus 2 hours (7 200 000 ms) when the zone's offset from UTC is the
  same at both ends; its \<open>createdAt\<close> is the server's time stamp, a separate clock. When only
  the message cannot be added, the status stays written and nothing is rolled back.
\<close>

theorem approve_status_then_message:
  assumes R: "(docId, R) \<in> set (reports db)"
      and dist: "distinct (map fst (reports db))"
      and uniq: "\<forall>(d, r) \<in> set (reports db). r_id r = r_id R \<longrightarrow> d = docId"
      and owner: "r_userId R \<noteq> None"
      and free: "processingId dash \<noteq> Some docId"
      and up: "\<forall>q. \<not> unreachable e q"
      and tz: "offsetAtLocal (zone e) (clientNow e + offsetAtUTC (zone e) (clientNow e) + 7200000)
               = offsetAtUTC (zone e) (clientNow e)"
  shows "(\<exists>dash' db' msg.
            handleApprove e dash db (r_id R) docId
              = (dash', db', [StatusWritten docId Approved, MessageAdded (autoId e) msg])
          \<and> getReport docId db' = Some (R\<lparr>r_status := Approved\<rparr>)
          \<and> messages db' = messages db @ [(autoId e, msg)]
          \<and> m_type msg = approval \<and> m_userId msg = r_userId R \<and> m_reportId msg = r_id R
          \<and> m_expiresAt msg = clientNow e + 7200000
          \<and> m_createdAt msg = serverNow e)
       \<and> (\<exists>dash' db'.
            handleApprove (e\<lparr>unreachable := (\<lambda>q. q = AddDoc)\<rparr>) dash db (r_id R) docId
              = (dash', db', [StatusWritten docId Approved])
          \<and> getReport docId db' = Some (R\<lparr>r_status := Approved\<rparr>)
          \<and> messages db' = messages db)"
proof -
  obtain others where w: "whereId (r_id R) db = (docId, R) # others"
    using whereId_first [OF R dist uniq] by blast
  have g: "getReport docId db = Some R"
    using getReport_member [OF dist R] .
  obtain db1 where u: "updateStatus docId Approved db = Some db1"
    using updateStatus_exists [OF g] by blast
  have g1: "getReport docId db1 = Some (R\<lparr>r_status := Approved\<rparr>)"
    using getReport_updateStatus [OF u, of docId] g by simp
  have m1: "messages db1 = messages db"
    using updateStatus_messages [OF u] .
  have x: "twoHoursLater (zone e) (clientNow e) = clientNow e + 7200000"
    using tz by (rule twoHoursLater_same_offset)
  obtain ownerId where o: "r_userId R = Some ownerId"
    using owner by blast
  have first: "\<exists>dash' db' msg.
            handleApprove e dash db (r_id R) docId
              = (dash', db', [StatusWritten docId Approved, MessageAdded (autoId e) msg])
          \<and> getReport docId db' = Some (R\<lparr>r_status := Approved\<rparr>)
          \<and> messages db' = messages db @ [(autoId e, msg)]
          \<and> m_type msg = approval \<and> m_userId msg = r_userId R \<and> m_reportId msg = r_id R
          \<and> m_expiresAt msg = clientNow e + 7200000
          \<and> m_createdAt msg = serverNow e"
    using up g1 m1 x
    by (simp add: handleApprove_run [OF w u free] Let_def getReport_addMessage o)
       (simp add: addMessage_def)
  have second: "\<exists>dash' db'.
            handleApprove (e\<lparr>unreachable := (\<lambda>q. q = AddDoc)\<rparr>) dash db (r_id R) docId
              = (dash', db', [StatusWritten docId Approved])
          \<and> getReport docId db' = Some (R\<lparr>r_status := Approved\<rparr>)
          \<and> messages db' = messages db"
    using g1 m1
    by (simp add: handleApprove_run [OF w u free] Let_def failed_def)
  show ?thesis using first second by blast
qed

lemma sample_pending_member:
  "(''doc-2'', (sampleReport (Some ''Co. Cork'') Pending ''u2'')\<lparr>r_id := ''m3k9-1b''\<rparr>)
     \<in> set (reports sampleModerationDb)"
  by (simp add: sampleModerationDb_def)

lemma sample_docIds_distinct: "distinct (map fst (reports sampleModerationDb))"
  by (simp add: sampleModerationDb_def)

lemma sample_pending_id_unique:
  "\<forall>(d, r) \<in> set (reports sampleModerationDb).
     r_id r = r_id ((sampleReport (Some ''Co. Cork'') Pending ''u2'')\<lparr>r_id := ''m3k9-1b''\<rparr>)
     \<longrightarrow> d = ''doc-2''"
  by (simp add: sampleModerationDb_def assignedTo_def sampleReport_def)

theorem approve_status_then_message_witness:
  "\<exists>dash' db' msg.
      handleApprove (online 1000000 1004000) (adminDashboard ''admin-a'') sampleModerationDb
          ''m3k9-1b'' ''doc-2''
        = (dash', db', [StatusWritten ''doc-2'' Approved, MessageAdded ''msg-1'' msg])
      \<and> map (r_status \<circ> snd) (reports db') = [Approved, Approved, Approved]
      \<and> messages db' = [(''msg-1'', msg)]
      \<and> m_type msg = approval \<and> m_userId msg = Some ''u2''
      \<and> m_expiresAt msg = 8200000 \<and> m_createdAt msg = 1004000"
proof -
  let ?R = "(sampleReport (Some ''Co. Cork'') Pending ''u2'')\<lparr>r_id := ''m3k9-1b''\<rparr>"
  let ?e = "online 1000000 1004000"
  have owner: "r_userId ?R \<noteq> None"
    by (simp add: sampleReport_def)
  have free: "processingId (adminDashboard ''admin-a'') \<noteq> Some ''doc-2''"
    by (simp add: adminDashboard_def)
  have up: "\<forall>q. \<not> unreachable ?e q"
    by (simp add: online_def)
  have tz: "offsetAtLocal (zone ?e) (clientNow ?e + offsetAtUTC (zone ?e) (clientNow ?e) + 7200000)
            = offsetAtUTC (zone ?e) (clientNow ?e)"
    by (simp add: online_def fixedZone_def)
  note t = approve_status_then_message
             [OF sample_pending_member sample_docIds_distinct sample_pending_id_unique owner free up tz]
  then obtain dash' db' msg where
    run: "handleApprove ?e (adminDashboard ''admin-a'') sampleModerationDb (r_id ?R) ''doc-2''
            = (dash', db', [StatusWritten ''doc-2'' Approved, MessageAdded (autoId ?e) msg])"
    and msgs: "messages db' = messages sampleModerationDb @ [(autoId ?e, msg)]"
    and props: "m_type msg = approval" "m_userId msg = r_userId ?R"
               "m_expiresAt msg = clientNow ?e + 7200000" "m_createdAt msg = serverNow ?e"
    by blast
  have ev: "map (r_status \<circ> snd)
              (reports (fst (snd (handleApprove ?e (adminDashboard ''admin-a'') sampleModerationDb
                                   ''m3k9-1b'' ''doc-2''))))
            = [Approved, Approved, Approved]"
    by (simp add: handleApprove_def whereId_def updateStatus_def sampleModerationDb_def
          assignedTo_def sampleReport_def online_def adminDashboard_def addMessage_def Let_def)
  have rid: "r_id ?R = ''m3k9-1b''" by simp
  have "map (r_status \<circ> snd) (reports db') = [Approved, Approved, Approved]"
    using ev run by (simp only: rid fst_conv snd_conv)
  moreover have "messages db' = [(''msg-1'', msg)]"
    using msgs by (simp add: sampleModerationDb_def online_def)
  moreover have "m_userId msg = Some ''u2''" "m_expiresAt msg = 8200000" "m_createdAt msg = 1004000"
    using props by (simp_all add: sampleReport_def online_def)
  moreover have "handleApprove ?e (adminDashboard ''admin-a'') sampleModerationDb ''m3k9-1b'' ''doc-2''
        = (dash', db', [StatusWritten ''doc-2'' Approved, MessageAdded ''msg-1'' msg])"
    using run by (simp add: online_def)
  ultimately show ?thesis
    using props(1) by (intro exI [of _ dash'] exI [of _ db'] exI [of _ msg]) simp
qed

text \<open>
  The claim as stated fails when the two clocks differ: with the device's clock at 1 000 000
  and the server's at 1 004 000, the message has \<open>createdAt\<close> 1 004 000 and \<open>expiresAt\<close>
  8 200 000, which is 4 seconds short of two hours after its creation time.
\<close>

theorem approve_expiry_counterexample:
  "map (\<lambda>(i, m). (m_type m, m_createdAt m, m_expiresAt m))
     (messages (fst (snd (handleApprove (online 1000000 1004000) (adminDashboard ''admin-a'')
                            sampleModerationDb ''m3k9-1b'' ''doc-2''))))
   = [(approval, 1004000, 8200000)]
   \<and> (8200000 :: int) \<noteq> 1004000 + 7200000"
  by (simp add: handleApprove_def whereId_def updateStatus_def sampleModerationDb_def
        assignedTo_def sampleReport_def online_def adminDashboard_def addMessage_def Let_def
        twoHoursLater_fixedZone)

lemma handleComplete_other_document:
  assumes "handleComplete e dash db reportId d = (dash', db', ws)" and "d \<noteq> docId"
  shows "getReport docId db' = getReport docId db \<and> (\<forall>s. StatusWritten docId s \<notin> set ws)"
  using assms
  by (auto simp: handleComplete_def failed_def Let_def getReport_updateStatus getReport_addMessage
           split: if_splits option.splits)

lemma handleComplete_message_id:
  assumes "handleComplete e dash db reportId d = (dash', db', ws)" and "MessageAdded i m \<in> set ws"
  shows "m_reportId m = reportId"
  using assms
  by (auto simp: handleComplete_def failed_def Let_def split: if_splits option.splits)

lemma fetchAssignedReports_list:
  assumes "user dash = Some uid" and "\<not> unreachable e GetDocs"
  shows "assignedReports (fetchAssignedReports e dash db)
         = filter (\<lambda>(docId, d). r_assigned d = Some uid \<and> r_status d = Approved) (reports db)"
    and "isAdmin (fetchAssignedReports e dash db) = isAdmin dash"
  using assms by (simp_all add: fetchAssignedReports_def)

text \<open>
  C1, as the code has it. \<open>handleComplete\<close> makes no check of the assignee; the restriction
  lies in the list of the assigned tab. For a stored report \<open>R\<close> (an approved one in
  particular) whose assignee is not the signed-in admin, with a generated id no other
  document has: the list fetched for that admin does not contain \<open>R\<close>, and whatever Complete
  button of the list is pressed while the store is as fetched, \<open>R\<close> is left as it is, no
  status is written to it and no message about it is added.
\<close>

theorem complete_offered_to_assignee_only:
  assumes u: "user dash = Some uid"
      and R: "(docId, R) \<in> set (reports db)"
      and dist: "distinct (map fst (reports db))"
      and uniq: "\<forall>(d, r) \<in> set (reports db). r_id r = r_id R \<longrightarrow> d = docId"
      and other: "r_assigned R \<noteq> Some uid"
      and up: "\<not> unreachable e GetDocs"
  shows "docId \<notin> fst ` set (assignedReports (fetchAssignedReports e dash db))
       \<and> (\<forall>e' i dash' db' ws.
             pressComplete e' (fetchAssignedReports e dash db) db i = (dash', db', ws) \<longrightarrow>
               getReport docId db' = Some R
             \<and> (\<forall>s. StatusWritten docId s \<notin> set ws)
             \<and> (\<forall>j m. MessageAdded j m \<in> set ws \<longrightarrow> m_reportId m \<noteq> r_id R))"
proof -
  let ?dash = "fetchAssignedReports e dash db"
  have l: "assignedReports ?dash
           = filter (\<lambda>(docId, d). r_assigned d = Some uid \<and> r_status d = Approved) (reports db)"
    using fetchAssignedReports_list(1) [OF u up] .
  have g: "getReport docId db = Some R"
    using getReport_member [OF dist R] .
  have listed: "\<And>d r. (d, r) \<in> set (assignedReports ?dash) \<Longrightarrow> d \<noteq> docId \<and> r_id r \<noteq> r_id R"
  proof -
    fix d r assume "(d, r) \<in> set (assignedReports ?dash)"
    then have m: "(d, r) \<in> set (reports db)" and a: "r_assigned r = Some uid"
      by (simp_all add: l)
    have "d \<noteq> docId"
    proof
      assume "d = docId"
      then have "getReport docId db = Some r"
        using getReport_member [OF dist m] by simp
      then show False using g a other by simp
    qed
    moreover have "r_id r \<noteq> r_id R"
      using uniq m calculation by blast
    ultimately show "d \<noteq> docId \<and> r_id r \<noteq> r_id R" by simp
  qed
  have first: "docId \<notin> fst ` set (assignedReports ?dash)"
    using listed by force
  have second: "\<forall>e' i dash' db' ws.
             pressComplete e' ?dash db i = (dash', db', ws) \<longrightarrow>
               getReport docId db' = Some R
             \<and> (\<forall>s. StatusWritten docId s \<notin> set ws)
             \<and> (\<forall>j m. MessageAdded j m \<in> set ws \<longrightarrow> m_reportId m \<noteq> r_id R)"
  proof (intro allI impI)
    fix e' i dash' db' ws
    assume p: "pressComplete e' ?dash db i = (dash', db', ws)"
    show "getReport docId db' = Some R
             \<and> (\<forall>s. StatusWritten docId s \<notin> set ws)
             \<and> (\<forall>j m. MessageAdded j m \<in> set ws \<longrightarrow> m_reportId m \<noteq> r_id R)"
    proof (cases "isAdmin ?dash \<and> i < length (assignedReports ?dash)")
      case False
      then have "pressComplete e' ?dash db i = (?dash, db, [])"
        by (simp only: pressComplete_def if_False)
      then have "db' = db" "ws = []"
        using p by simp_all
      then show ?thesis using g by simp
    next
      case True
      obtain d r where dr: "assignedReports ?dash ! i = (d, r)"
        by (cases "assignedReports ?dash ! i")
      then have mem: "(d, r) \<in> set (assignedReports ?dash)"
        using True by (metis nth_mem)
      have h: "handleComplete e' ?dash db (r_id r) d = (dash', db', ws)"
        using p True dr by (simp add: pressComplete_def)
      have "d \<noteq> docId" "r_id r \<noteq> r_id R"
        using listed [OF mem] by simp_all
      then show ?thesis
        using handleComplete_other_document [OF h] handleComplete_message_id [OF h] g by metis
    qed
  qed
  show ?thesis using first second by blast
qed

text \<open>
  The claim as stated fails on \<open>handleComplete\<close> itself: called by admin B for a report
  assigned to admin A, it marks the report completed and adds the message.
\<close>

theorem complete_by_other_admin_counterexample:
  "map_option r_assigned (getReport ''doc-1'' sampleModerationDb) = Some (Some ''admin-a'')
   \<and> map_option r_status (getReport ''doc-1'' sampleModerationDb) = Some Approved
   \<and> user (adminDashboard ''admin-b'') = Some ''admin-b''
   \<and> map_option r_status
        (getReport ''doc-1''
           (fst (snd (handleComplete (online 1000000 1000000) (adminDashboard ''admin-b'')
                        sampleModerationDb ''m3k2-9x'' ''doc-1''))))
       = Some Completed
   \<and> map (\<lambda>(i, m). (m_type m, m_reportId m))
        (messages (fst (snd (handleComplete (online 1000000 1000000) (adminDashboard ''admin-b'')
                               sampleModerationDb ''m3k2-9x'' ''doc-1''))))
       = [(general, ''m3k2-9x'')]"
  by (simp add: handleComplete_def getReport_def updateStatus_def sampleModerationDb_def
        assignedTo_def sampleReport_def online_def adminDashboard_def addMessage_def Let_def)

theorem complete_offered_to_assignee_only_witness:
  "''doc-1'' \<notin> fst ` set (assignedReports
       (fetchAssignedReports (online 0 0) (adminDashboard ''admin-b'') sampleModerationDb))
   \<and> getReport ''doc-1''
        (fst (snd (pressComplete (online 1000000 1000000)
                     (fetchAssignedReports (online 0 0) (adminDashboard ''admin-b'') sampleModerationDb)
                     sampleModerationDb 0)))
       = Some (assignedTo ''admin-a'')
   \<and> map_option r_status
        (getReport ''doc-3''
          (fst (snd (pressComplete (online 1000000 1000000)
                       (fetchAssignedReports (online 0 0) (adminDashboard ''admin-b'') sampleModerationDb)
                       sampleModerationDb 0))))
       = Some Completed"
proof -
  let ?dash = "fetchAssignedReports (online 0 0) (adminDashboard ''admin-b'') sampleModerationDb"
  let ?run = "pressComplete (online 1000000 1000000) ?dash sampleModerationDb 0"
  have u: "user (adminDashboard ''admin-b'') = Some ''admin-b''"
    by (simp add: adminDashboard_def)
  have R: "(''doc-1'', assignedTo ''admin-a'') \<in> set (reports sampleModerationDb)"
    by (simp add: sampleModerationDb_def)
  have uniq: "\<forall>(d, r) \<in> set (reports sampleModerationDb).
                r_id r = r_id (assignedTo ''admin-a'') \<longrightarrow> d = ''doc-1''"
    by (simp add: sampleModerationDb_def assignedTo_def sampleReport_def)
  have other: "r_assigned (assignedTo ''admin-a'') \<noteq> Some ''admin-b''"
    by (simp add: assignedTo_def)
  have up: "\<not> unreachable (online 0 0) GetDocs"
    by (simp add: online_def)
  note t = complete_offered_to_assignee_only [OF u R sample_docIds_distinct uniq other up]
  obtain dash' db' ws where run: "?run = (dash', db', ws)"
    by (cases ?run)
  then have "getReport ''doc-1'' db' = Some (assignedTo ''admin-a'')"
    using t by blast
  then have a: "getReport ''doc-1'' (fst (snd ?run)) = Some (assignedTo ''admin-a'')"
    using run by simp
  have b: "map_option r_status (getReport ''doc-3'' (fst (snd ?run))) = Some Completed"
    by (simp add: pressComplete_def fetchAssignedReports_def handleComplete_def getReport_def
          updateStatus_def sampleModerationDb_def assignedTo_def sampleReport_def online_def
          adminDashboard_def addMessage_def Let_def)
  show ?thesis using t a b by blast
qed

text \<open>
  A report stored without an owning user id: the status is written, then \<open>addDoc\<close> refuses the
  message, and the handler reports a failure.
\<close>

lemma approve_without_owner:
  assumes "whereId reportId db = (firstId, reportData) # others"
      and "updateStatus docId Approved db = Some db1"
      and "processingId dash \<noteq> Some docId"
      and "\<not> unreachable e GetDocs" and "\<not> unreachable e UpdateDoc"
      and "r_userId reportData = None"
  shows "handleApprove e dash db reportId docId
         = failed dash db1 [StatusWritten docId Approved] ''Failed to approve report''"
  using assms by (simp add: handleApprove_def Let_def)

section \<open>Properties of the upvote toggle\<close>








section \<open>Properties of the submission workflow\<close>

subsection \<open>generateId gives different ids for different readings\<close>

lemma digit36_code:
  "d < 36 \<Longrightarrow> (of_char (digit36 d) :: nat) = (if d < 10 then 48 + d else 87 + d)"
  by (simp add: digit36_def)

lemma digit36_inj:
  assumes "a < 36" and "b < 36" and "digit36 a = digit36 b"
  shows "a = b"
proof -
  have "(of_char (digit36 a) :: nat) = of_char (digit36 b)"
    using assms(3) by simp
  then show ?thesis
    using assms(1,2) by (simp add: digit36_code split: if_splits)
qed

lemma digit36_not_dash:
  assumes "d < 36"
  shows "digit36 d \<noteq> CHR ''-''"
proof
  assume "digit36 d = CHR ''-''"
  then have "(of_char (digit36 d) :: nat) = of_char (CHR ''-'')" by simp
  then show False using assms by (simp add: digit36_code split: if_splits)
qed

lemma toString36_nonempty: "toString36 n \<noteq> []"
  by (subst toString36.simps) simp

lemma toString36_no_dash: "CHR ''-'' \<notin> set (toString36 n)"
proof (induction n rule: toString36.induct)
  case (1 n)
  show ?case
  proof (cases "n < 36")
    case True
    then show ?thesis using digit36_not_dash [of n] by (subst toString36.simps) auto
  next
    case False
    have "n mod 36 < 36" by simp
    then have "digit36 (n mod 36) \<noteq> CHR ''-''" by (rule digit36_not_dash)
    then show ?thesis using False 1 by (subst toString36.simps) auto
  qed
qed

lemma toString36_inj: "toString36 n = toString36 m \<Longrightarrow> n = m"
proof (induction n arbitrary: m rule: toString36.induct)
  case (1 n)
  show ?case
  proof (cases "n < 36")
    case n: True
    show ?thesis
    proof (cases "m < 36")
      case True
      then show ?thesis using n 1(2) digit36_inj
        by (simp add: toString36.simps [of n] toString36.simps [of m])
    next
      case False
      then show ?thesis using n 1(2) toString36_nonempty [of "m div 36"]
        by (simp add: toString36.simps [of n] toString36.simps [of m])
    qed
  next
    case n: False
    show ?thesis
    proof (cases "m < 36")
      case True
      then show ?thesis using n 1(2) toString36_nonempty [of "n div 36"]
        by (simp add: toString36.simps [of n] toString36.simps [of m])
    next
      case False
      then have e: "toString36 (n div 36) = toString36 (m div 36)"
        and d: "digit36 (n mod 36) = digit36 (m mod 36)"
        using n 1(2) by (simp_all add: toString36.simps [of n] toString36.simps [of m])
      have "n div 36 = m div 36" using 1(1) [OF n e] .
      moreover have "n mod 36 = m mod 36" using d digit36_inj by simp
      ultimately show ?thesis by (metis div_mult_mod_eq)
    qed
  qed
qed

lemma split_at_dash:
  assumes "CHR ''-'' \<notin> set xs" "CHR ''-'' \<notin> set xs'" "xs @ CHR ''-'' # ys = xs' @ CHR ''-'' # ys'"
  shows "xs = xs' \<and> ys = ys'"
  using assms
proof (induction xs arbitrary: xs')
  case Nil
  then show ?case by (cases xs') auto
next
  case (Cons x xs)
  then show ?case by (cases xs') auto
qed

lemma generateId_inj:
  assumes "generateId t r = generateId t' r'"
  shows "t = t' \<and> r = r'"
proof -
  have "toString36 t @ CHR ''-'' # toString36 r = toString36 t' @ CHR ''-'' # toString36 r'"
    using assms by (simp add: generateId_def)
  then have "toString36 t = toString36 t' \<and> toString36 r = toString36 r'"
    by (rule split_at_dash [OF toString36_no_dash toString36_no_dash])
  then show ?thesis
    using toString36_inj [of t t'] toString36_inj [of r r'] by simp
qed

subsection \<open>The checks before any request\<close>

lemma isLocationValid_iff: "isLocationValid s \<longleftrightarrow> \<not> invalidLocation s"
  by (auto simp: isLocationValid_def invalidLocation_def split: option.splits)

lemma uploadReport_missing:
  "missingField s \<Longrightarrow>
   uploadReport w s db blobs
   = Some (showToast ''error'' ''Missing Fields'' ''Please fill in all fields before submitting.'' s,
           db, blobs, Returned)"
  unfolding uploadReport_def missingField_def by (rule if_P)

lemma uploadReport_county:
  "\<not> missingField s \<Longrightarrow> \<not> isValidCounty (Some (s_county s)) \<Longrightarrow>
   uploadReport w s db blobs
   = Some (showToast ''error'' ''Invalid County'' ''Please select a valid Irish county.'' s,
           db, blobs, Returned)"
  unfolding uploadReport_def missingField_def by (simp only: if_False if_True simp_thms)

lemma uploadReport_location:
  "\<not> missingField s \<Longrightarrow> isValidCounty (Some (s_county s)) \<Longrightarrow> \<not> isLocationValid s \<Longrightarrow>
   \<exists>text. uploadReport w s db blobs
   = Some (showToast ''error'' ''Location Validation Failed'' text s, db, blobs, Returned)"
  unfolding uploadReport_def missingField_def by (simp only: if_False if_True simp_thms) blast

lemma precondition_failure:
  assumes "missingField s \<or> \<not> isValidCounty (Some (s_county s)) \<or> invalidLocation s"
  shows "\<exists>title text.
           uploadReport w s db blobs = Some (showToast ''error'' title text s, db, blobs, Returned)
         \<and> title \<in> {''Missing Fields'', ''Invalid County'', ''Location Validation Failed''}"
proof (cases "missingField s")
  case True
  then show ?thesis using uploadReport_missing by blast
next
  case m: False
  show ?thesis
  proof (cases "isValidCounty (Some (s_county s))")
    case False
    then show ?thesis using m uploadReport_county by blast
  next
    case True
    then have "\<not> isLocationValid s"
      using assms m by (simp add: isLocationValid_iff)
    then show ?thesis using m True uploadReport_location by blast
  qed
qed

text \<open>
  C6. A submission with a missing required field, a county that \<open>isValidCounty\<close> rejects or an
  invalid location (no fix, accuracy above 100 meters, no address component) ends with one
  error toast naming the failed check; the screen is otherwise unchanged, no report is added
  to the store and no blob is written. An accuracy of 150 meters is such a case whatever the
  other fields hold.
\<close>

theorem failed_precondition_aborts:
  assumes "missingField s \<or> \<not> isValidCounty (Some (s_county s)) \<or> invalidLocation s
           \<or> s_locationAccuracy s = Some 150"
  shows "\<exists>title text.
           uploadReport w s db blobs = Some (showToast ''error'' title text s, db, blobs, Returned)
         \<and> title \<in> {''Missing Fields'', ''Invalid County'', ''Location Validation Failed''}"
proof -
  have "s_locationAccuracy s = Some 150 \<Longrightarrow> invalidLocation s"
    by (simp add: invalidLocation_def)
  then have "missingField s \<or> \<not> isValidCounty (Some (s_county s)) \<or> invalidLocation s"
    using assms by blast
  then show ?thesis by (rule precondition_failure)
qed

lemma county_Dublin_valid: "isValidCounty (Some ''Dublin'')"
  by code_simp

theorem failed_precondition_aborts_witness:
  "s_locationAccuracy (filledForm (Some 150)) = Some 150
   \<and> \<not> missingField (filledForm (Some 150))
   \<and> isValidCounty (Some (s_county (filledForm (Some 150))))
   \<and> (\<exists>title text.
         uploadReport (sampleWorld True) (filledForm (Some 150)) emptyDb []
           = Some (showToast ''error'' title text (filledForm (Some 150)), emptyDb, [], Returned)
         \<and> title \<in> {''Missing Fields'', ''Invalid County'', ''Location Validation Failed''})"
proof -
  have a: "s_locationAccuracy (filledForm (Some 150)) = Some 150"
    by (simp add: filledForm_def)
  have m: "\<not> missingField (filledForm (Some 150))"
    by (simp add: filledForm_def missingField_def)
  have c: "isValidCounty (Some (s_county (filledForm (Some 150))))"
    using county_Dublin_valid by (simp add: filledForm_def)
  have "missingField (filledForm (Some 150))
        \<or> \<not> isValidCounty (Some (s_county (filledForm (Some 150))))
        \<or> invalidLocation (filledForm (Some 150))
        \<or> s_locationAccuracy (filledForm (Some 150)) = Some 150"
    using a by simp
  from failed_precondition_aborts [OF this, of "sampleWorld True" emptyDb "[]"] a m c
  show ?thesis by simp
qed

subsection \<open>After the checks\<close>

lemma uploadReport_checked:
  assumes "\<not> missingField s" and "isValidCounty (Some (s_county s))" and "\<not> invalidLocation s"
      and "s_location s = Some loc" and "checkDuplicateReport w s db loc = Inr False"
      and "verifyImageWithChatGPT (verifyWorld w) = Some (Inr v, evs)" and "\<not> truthy v"
  shows "uploadReport w s db blobs = Some (formAfterFalseVerdict w s, db, blobs, Returned)"
proof -
  have l: "isLocationValid s" using assms(3) by (simp add: isLocationValid_iff)
  show ?thesis
    unfolding uploadReport_def formAfterFalseVerdict_def
    using assms(1,2,4,5,6,7) l
    by (simp only: missingField_def if_False if_True simp_thms option.case sum.case
          bool.case prod.case not_False_eq_True)
qed

lemma uploadReport_duplicate_or_rejected:
  assumes "\<not> missingField s" and "isValidCounty (Some (s_county s))" and "\<not> invalidLocation s"
      and "s_location s = Some loc" and "checkDuplicateReport w s db loc \<noteq> Inr False"
  shows "\<exists>s' c. uploadReport w s db blobs = Some (s', db, blobs, c)"
proof -
  have l: "isLocationValid s" using assms(3) by (simp add: isLocationValid_iff)
  show ?thesis
  proof (cases "checkDuplicateReport w s db loc")
    case (Inl msg)
    then show ?thesis
      unfolding uploadReport_def using assms(1,2,4) l
      by (simp add: missingField_def)
  next
    case (Inr b)
    then have "checkDuplicateReport w s db loc = Inr True"
      using assms(5) by (cases b) simp_all
    then show ?thesis
      unfolding uploadReport_def using assms(1,2,4) l
      by (simp add: missingField_def)
  qed
qed

text \<open>
  C5. When the verification returns a verdict that is not \<open>true\<close>, no run of \<open>uploadReport\<close>
  adds a report to the store or writes a blob. A submission that has passed the checks ends
  with the toast "Validation Failed" (the promise is fulfilled, the \<open>catch\<close> block is not
  entered), with image, category and description cleared and a newly generated id, which
  differs from the form's previous id whenever that one came from other readings of the
  clock and the random source.
\<close>

theorem false_verdict_creates_nothing:
  assumes verdict: "verifyImageWithChatGPT (verifyWorld w) = Some (Inr v, evs)"
      and false: "\<not> truthy v"
  shows "(\<exists>s' c. uploadReport w s db blobs = Some (s', db, blobs, c))
       \<and> (passesChecks w s db \<longrightarrow>
            uploadReport w s db blobs = Some (formAfterFalseVerdict w s, db, blobs, Returned)
          \<and> s_imageUri (formAfterFalseVerdict w s) = []
          \<and> s_selectedCategory (formAfterFalseVerdict w s) = []
          \<and> s_description (formAfterFalseVerdict w s) = []
          \<and> s_uniqueId (formAfterFalseVerdict w s) = generateId (dateNow w) (random w)
          \<and> s_toasts (formAfterFalseVerdict w s)
              = s_toasts s @ [(''error'', ''Validation Failed'',
                               ''Validation check failed. Please try again.'')])
       \<and> (\<forall>t r. s_uniqueId s = generateId t r \<and> (t, r) \<noteq> (dateNow w, random w)
                 \<longrightarrow> s_uniqueId (formAfterFalseVerdict w s) \<noteq> s_uniqueId s)"
proof (intro conjI)
  show "\<exists>s' c. uploadReport w s db blobs = Some (s', db, blobs, c)"
  proof (cases "missingField s \<or> \<not> isValidCounty (Some (s_county s)) \<or> invalidLocation s")
    case True
    then show ?thesis using precondition_failure by blast
  next
    case False
    then obtain loc where loc: "s_location s = Some loc"
      by (auto simp: invalidLocation_def)
    show ?thesis
    proof (cases "checkDuplicateReport w s db loc = Inr False")
      case True
      then show ?thesis
        using uploadReport_checked [OF _ _ _ loc True verdict false] False by blast
    next
      case d: False
      then show ?thesis
        using uploadReport_duplicate_or_rejected [OF _ _ _ loc d] False by blast
    qed
  qed
  show "passesChecks w s db \<longrightarrow>
            uploadReport w s db blobs = Some (formAfterFalseVerdict w s, db, blobs, Returned)
          \<and> s_imageUri (formAfterFalseVerdict w s) = []
          \<and> s_selectedCategory (formAfterFalseVerdict w s) = []
          \<and> s_description (formAfterFalseVerdict w s) = []
          \<and> s_uniqueId (formAfterFalseVerdict w s) = generateId (dateNow w) (random w)
          \<and> s_toasts (formAfterFalseVerdict w s)
              = s_toasts s @ [(''error'', ''Validation Failed'',
                               ''Validation check failed. Please try again.'')]"
  proof
    assume p: "passesChecks w s db"
    then obtain loc where loc: "s_location s = Some loc"
      and d: "checkDuplicateReport w s db loc = Inr False"
      by (auto simp: passesChecks_def)
    have "uploadReport w s db blobs = Some (formAfterFalseVerdict w s, db, blobs, Returned)"
      using uploadReport_checked [OF _ _ _ loc d verdict false] p
      by (simp add: passesChecks_def)
    then show "uploadReport w s db blobs = Some (formAfterFalseVerdict w s, db, blobs, Returned)
          \<and> s_imageUri (formAfterFalseVerdict w s) = []
          \<and> s_selectedCategory (formAfterFalseVerdict w s) = []
          \<and> s_description (formAfterFalseVerdict w s) = []
          \<and> s_uniqueId (formAfterFalseVerdict w s) = generateId (dateNow w) (random w)
          \<and> s_toasts (formAfterFalseVerdict w s)
              = s_toasts s @ [(''error'', ''Validation Failed'',
                               ''Validation check failed. Please try again.'')]"
      by (simp add: formAfterFalseVerdict_def showToast_def)
  qed
  show "\<forall>t r. s_uniqueId s = generateId t r \<and> (t, r) \<noteq> (dateNow w, random w)
                 \<longrightarrow> s_uniqueId (formAfterFalseVerdict w s) \<noteq> s_uniqueId s"
  proof (intro allI impI)
    fix t r
    assume a: "s_uniqueId s = generateId t r \<and> (t, r) \<noteq> (dateNow w, random w)"
    have "generateId (dateNow w) (random w) \<noteq> generateId t r"
      using a generateId_inj [of "dateNow w" "random w" t r] by auto
    then show "s_uniqueId (formAfterFalseVerdict w s) \<noteq> s_uniqueId s"
      using a by (simp add: formAfterFalseVerdict_def)
  qed
qed

theorem false_verdict_creates_nothing_witness:
  "passesChecks (sampleWorld False) (filledForm (Some 12)) emptyDb
   \<and> uploadReport (sampleWorld False) (filledForm (Some 12)) emptyDb []
       = Some (formAfterFalseVerdict (sampleWorld False) (filledForm (Some 12)), emptyDb, [], Returned)
   \<and> s_description (formAfterFalseVerdict (sampleWorld False) (filledForm (Some 12))) = []
   \<and> s_uniqueId (formAfterFalseVerdict (sampleWorld False) (filledForm (Some 12)))
       = generateId 5000 42
   \<and> s_uniqueId (formAfterFalseVerdict (sampleWorld False) (filledForm (Some 12)))
       \<noteq> s_uniqueId (filledForm (Some 12))"
proof -
  let ?w = "sampleWorld False"
  let ?s = "filledForm (Some 12)"
  have verdict: "verifyImageWithChatGPT (verifyWorld ?w)
                 = Some (Inr (Some False), [ReadFile, Delay 1000, Post])"
    by (simp add: sampleWorld_def verifiedResponse_def tryBlock_def ok_def)
  have false: "\<not> truthy (Some False)"
    by (simp add: truthy_def)
  have m: "\<not> missingField ?s"
    by (simp add: filledForm_def missingField_def)
  have c: "isValidCounty (Some (s_county ?s))"
    using county_Dublin_valid by (simp add: filledForm_def)
  have l: "\<not> invalidLocation ?s"
    by (simp add: filledForm_def invalidLocation_def)
  have d: "s_location ?s = Some dublinFix \<and> checkDuplicateReport ?w ?s emptyDb dublinFix = Inr False"
    by (simp add: filledForm_def checkDuplicateReport_def sampleWorld_def emptyDb_def)
  have p: "passesChecks ?w ?s emptyDb"
    unfolding passesChecks_def using m c l d by blast
  have old: "s_uniqueId ?s = generateId 1000 7 \<and> (1000, 7) \<noteq> (dateNow ?w, random ?w)"
    by (simp add: filledForm_def sampleWorld_def)
  note t = false_verdict_creates_nothing [OF verdict false, of ?s emptyDb "[]"]
  have new: "s_uniqueId (formAfterFalseVerdict ?w ?s) \<noteq> s_uniqueId ?s"
    using t old by blast
  have id: "s_uniqueId (formAfterFalseVerdict ?w ?s) = generateId 5000 42"
    using t p by (simp add: sampleWorld_def)
  show ?thesis using t p new id by simp
qed

subsection \<open>The duplicate check\<close>



















end
